theory Spec2Isabelle
  imports Complex_Main
begin

section \<open>JavaScript values as the components receive them\<close>

text \<open>
  The components read JSON that the backend sent. A field of a JSON object is either
  missing (\<open>undefined\<close>), \<open>null\<close>, or a value of the type the data model gives it.
  Numbers are IEEE doubles: every finite double is a rational, so a finite number is
  modelled by a rational, next to \<open>NaN\<close> and the two infinities. Comparisons against the
  integer thresholds of the source are exact on doubles, so they agree with the model.
\<close>

datatype jsnum = Fin rat | NaN | PosInf | NegInf

datatype 'a js = Undefined | Null | Val 'a

datatype error = TypeError

text \<open>A value is absent when it is \<open>undefined\<close> or \<open>null\<close>.\<close>

fun absent :: "'a js \<Rightarrow> bool" where
  "absent (Val x) = False"
| "absent Undefined = True"
| "absent Null = True"

text \<open>\<open>ToNumber\<close> on a number-or-absent value: \<open>undefined\<close> is \<open>NaN\<close>, \<open>null\<close> is \<open>0\<close>.\<close>

fun to_number :: "jsnum js \<Rightarrow> jsnum" where
  "to_number Undefined = NaN"
| "to_number Null = Fin 0"
| "to_number (Val n) = n"

text \<open>\<open>n >= c\<close> and \<open>n > c\<close> for a finite literal \<open>c\<close>: false on \<open>NaN\<close>.\<close>

fun num_ge :: "jsnum \<Rightarrow> rat \<Rightarrow> bool" where
  "num_ge (Fin r) c = (c \<le> r)"
| "num_ge NaN c = False"
| "num_ge PosInf c = True"
| "num_ge NegInf c = False"

fun num_gt :: "jsnum \<Rightarrow> rat \<Rightarrow> bool" where
  "num_gt (Fin r) c = (c < r)"
| "num_gt NaN c = False"
| "num_gt PosInf c = True"
| "num_gt NegInf c = False"

definition js_ge :: "jsnum js \<Rightarrow> rat \<Rightarrow> bool" where
  "js_ge v c = num_ge (to_number v) c"

definition js_gt :: "jsnum js \<Rightarrow> rat \<Rightarrow> bool" where
  "js_gt v c = num_gt (to_number v) c"

text \<open>Truthiness (\<open>ToBoolean\<close>) at each type the components test.\<close>

fun truthy_num :: "jsnum \<Rightarrow> bool" where
  "truthy_num (Fin r) = (r \<noteq> 0)"
| "truthy_num NaN = False"
| "truthy_num PosInf = True"
| "truthy_num NegInf = True"

fun truthy_str :: "string js \<Rightarrow> bool" where
  "truthy_str (Val s) = (s \<noteq> [])"
| "truthy_str Undefined = False"
| "truthy_str Null = False"

fun truthy_bool :: "bool js \<Rightarrow> bool" where
  "truthy_bool (Val b) = b"
| "truthy_bool Undefined = False"
| "truthy_bool Null = False"

text \<open>
  Strings made by \<open>Number.prototype.toLocaleString\<close> and \<open>toFixed\<close> are kept symbolic:
  the digits depend on the locale and on rounding, and both methods always return a
  non-empty string, which is all that \<open>||\<close> looks at.
\<close>

datatype formatted = ToLocaleString jsnum | ToFixed nat jsnum

text \<open>What React shows for an expression in braces: nothing for \<open>undefined\<close> and \<open>null\<close>.\<close>

datatype child = Blank | NumChild jsnum | FmtChild formatted | StrChild string

fun num_child :: "jsnum js \<Rightarrow> child" where
  "num_child (Val n) = NumChild n"
| "num_child Undefined = Blank"
| "num_child Null = Blank"

fun str_child :: "string js \<Rightarrow> child" where
  "str_child (Val s) = StrChild s"
| "str_child Undefined = Blank"
| "str_child Null = Blank"

text \<open>\<open>a?.f\<close>: \<open>undefined\<close> when \<open>a\<close> is \<open>undefined\<close> or \<open>null\<close>, else the field.\<close>

fun opt_chain :: "'a js \<Rightarrow> ('a \<Rightarrow> 'b js) \<Rightarrow> 'b js" where
  "opt_chain (Val a) f = f a"
| "opt_chain Undefined f = Undefined"
| "opt_chain Null f = Undefined"

text \<open>\<open>n?.toLocaleString()\<close> and \<open>n?.toFixed(d)\<close> on a number-or-absent value.\<close>

definition toLocaleString :: "jsnum js \<Rightarrow> formatted js" where
  "toLocaleString v = opt_chain v (\<lambda>n. Val (ToLocaleString n))"

definition toFixed :: "nat \<Rightarrow> jsnum js \<Rightarrow> formatted js" where
  "toFixed d v = opt_chain v (\<lambda>n. Val (ToFixed d n))"

text \<open>\<open>x || 0\<close> where \<open>x\<close> is a formatted string or absent, and where it is a number or absent.\<close>

fun fmt_or_zero :: "formatted js \<Rightarrow> child" where
  "fmt_or_zero (Val f) = FmtChild f"
| "fmt_or_zero Undefined = NumChild (Fin 0)"
| "fmt_or_zero Null = NumChild (Fin 0)"

fun num_or_zero :: "jsnum js \<Rightarrow> jsnum" where
  "num_or_zero (Val n) = (if truthy_num n then n else Fin 0)"
| "num_or_zero Undefined = Fin 0"
| "num_or_zero Null = Fin 0"

text \<open>\<open>xs && xs.length > 0 && (...)\<close>: the list when it is there and not empty.\<close>

fun non_empty_list :: "'a list js \<Rightarrow> 'a list option" where
  "non_empty_list (Val xs) = (if length xs > 0 then Some xs else None)"
| "non_empty_list Undefined = None"
| "non_empty_list Null = None"

text \<open>\<open>s.startsWith(p)\<close>: a \<open>TypeError\<close> when \<open>s\<close> is \<open>undefined\<close> or \<open>null\<close>.\<close>

fun startsWith :: "string js \<Rightarrow> string \<Rightarrow> error + bool" where
  "startsWith (Val s) p = Inr (take (length p) s = p)"
| "startsWith Undefined p = Inl TypeError"
| "startsWith Null p = Inl TypeError"


section \<open>SEOScoreCard\<close>

record seo_score =
  overall_score :: "jsnum js"
  breakdown :: "(string \<times> jsnum js) list js"
  grade :: "string js"
  recommendations :: "string list js"

definition getGradeColor :: "string js \<Rightarrow> error + string" where
  "getGradeColor g =
     (case startsWith g ''A'' of Inl e \<Rightarrow> Inl e
      | Inr True \<Rightarrow> Inr ''text-green-600 bg-green-100''
      | Inr False \<Rightarrow>
     (case startsWith g ''B'' of Inl e \<Rightarrow> Inl e
      | Inr True \<Rightarrow> Inr ''text-blue-600 bg-blue-100''
      | Inr False \<Rightarrow>
     (case startsWith g ''C'' of Inl e \<Rightarrow> Inl e
      | Inr True \<Rightarrow> Inr ''text-orange-600 bg-orange-100''
      | Inr False \<Rightarrow> Inr ''text-red-600 bg-red-100'')))"

definition seo_getScoreColor :: "jsnum js \<Rightarrow> string" where
  "seo_getScoreColor score =
     (if js_ge score 85 then ''text-green-600''
      else if js_ge score 70 then ''text-blue-600''
      else if js_ge score 50 then ''text-orange-600''
      else ''text-red-600'')"

text \<open>The class of the bar under the overall score, written inline in the markup.\<close>

definition seo_bar_class :: "jsnum js \<Rightarrow> string" where
  "seo_bar_class score =
     (if js_ge score 85 then ''bg-green-600''
      else if js_ge score 70 then ''bg-blue-600''
      else if js_ge score 50 then ''bg-orange-600''
      else ''bg-red-600'')"

definition categories :: "(string \<times> string \<times> rat) list" where
  "categories =
     [(''title'', ''Title Optimization'', 20),
      (''description'', ''Meta Description'', 20),
      (''keywords'', ''Keywords'', 20),
      (''content_quality'', ''Content Quality'', 20),
      (''technical'', ''Technical SEO'', 20)]"

text \<open>\<open>breakdown?.[key]\<close>: a key that the object does not have reads as \<open>undefined\<close>.\<close>

definition breakdown_at :: "(string \<times> jsnum js) list js \<Rightarrow> string \<Rightarrow> jsnum js" where
  "breakdown_at b k =
     opt_chain b (\<lambda>kv. case map_of kv k of Some v \<Rightarrow> v | None \<Rightarrow> Undefined)"

record category_row =
  row_key :: string
  row_label :: string
  row_score :: child
  row_max :: rat

text \<open>
  One row of the breakdown: \<open>score = breakdown?.[key] || 0\<close>, shown as \<open>score/max\<close>. The
  colour of the row's bar comes from \<open>(score / max) * 100\<close> in floating point and is not
  part of the view.
\<close>

definition category_view :: "(string \<times> jsnum js) list js \<Rightarrow> string \<times> string \<times> rat \<Rightarrow> category_row" where
  "category_view b c =
     (case c of (k, label, mx) \<Rightarrow>
        \<lparr>row_key = k, row_label = label, row_score = NumChild (num_or_zero (breakdown_at b k)), row_max = mx\<rparr>)"

record seo_view =
  grade_class :: string
  grade_text :: child
  score_class :: string
  score_text :: child
  score_bar_class :: string
  score_bar_width :: "jsnum js"
  category_rows :: "category_row list"
  recommendation_items :: "string list option"

text \<open>
  The component: \<open>Inr None\<close> is \<open>return null\<close>, \<open>Inr (Some v)\<close> the element with the
  values of its holes, \<open>Inl TypeError\<close> an exception thrown while rendering.
\<close>

definition SEOScoreCard :: "seo_score js \<Rightarrow> error + seo_view option" where
  "SEOScoreCard seoScore =
     (case seoScore of
        Val s \<Rightarrow>
          (case getGradeColor (grade s) of
             Inl e \<Rightarrow> Inl e
           | Inr gc \<Rightarrow>
               Inr (Some \<lparr>grade_class = gc,
                          grade_text = str_child (grade s),
                          score_class = seo_getScoreColor (overall_score s),
                          score_text = num_child (overall_score s),
                          score_bar_class = seo_bar_class (overall_score s),
                          score_bar_width = overall_score s,
                          category_rows = map (category_view (breakdown s)) categories,
                          recommendation_items = non_empty_list (recommendations s)\<rparr>))
      | Undefined \<Rightarrow> Inr None
      | Null \<Rightarrow> Inr None)"


section \<open>ContentFreshness\<close>

record freshness =
  freshness_score :: "jsnum js"
  status :: "string js"
  days_old :: "jsnum js"
  needs_update :: "bool js"

definition getStatusColor :: "string js \<Rightarrow> string" where
  "getStatusColor st =
     (if st = Val ''Very Fresh'' \<or> st = Val ''Fresh'' then ''text-green-600 bg-green-100''
      else if st = Val ''Recent'' then ''text-blue-600 bg-blue-100''
      else if st = Val ''Moderate'' then ''text-orange-600 bg-orange-100''
      else if st = Val ''Aging'' \<or> st = Val ''Outdated'' then ''text-red-600 bg-red-100''
      else ''text-gray-600 bg-gray-100'')"

definition freshness_getScoreColor :: "jsnum js \<Rightarrow> string" where
  "freshness_getScoreColor score =
     (if js_ge score 90 then ''from-green-500 to-green-600''
      else if js_ge score 75 then ''from-blue-500 to-blue-600''
      else if js_ge score 60 then ''from-orange-500 to-orange-600''
      else ''from-red-500 to-red-600'')"

text \<open>
  The age line: \<open>days_old === 0 ? 'Created today' : `${days_old} day${days_old > 1 ? 's' : ''} old`\<close>.
\<close>

datatype age_line = CreatedToday | DaysOld "jsnum js" bool

definition age_text :: "jsnum js \<Rightarrow> age_line" where
  "age_text d = (if d = Val (Fin 0) then CreatedToday else DaysOld d (js_gt d 1))"

text \<open>
  The alert: with \<open>needs_update\<close> the warning, and in it the refresh button when the page
  passed \<open>onRefresh\<close>; a click calls \<open>onRefresh(contentId)\<close>.
\<close>

datatype alert = UpdateRecommended "string option" | UpToDate

record freshness_view =
  fresh_score_text :: child
  status_class :: string
  status_text :: child
  gradient_class :: string
  gradient_width :: "jsnum js"
  age :: age_line
  update_alert :: alert

definition ContentFreshness :: "freshness js \<Rightarrow> string \<Rightarrow> bool \<Rightarrow> error + freshness_view option" where
  "ContentFreshness fr contentId onRefresh =
     (case fr of
        Val f \<Rightarrow>
          Inr (Some \<lparr>fresh_score_text = num_child (freshness_score f),
                     status_class = getStatusColor (status f),
                     status_text = str_child (status f),
                     gradient_class = freshness_getScoreColor (freshness_score f),
                     gradient_width = freshness_score f,
                     age = age_text (days_old f),
                     update_alert =
                       (if truthy_bool (needs_update f)
                        then UpdateRecommended (if onRefresh then Some contentId else None)
                        else UpToDate)\<rparr>)
      | Undefined \<Rightarrow> Inr None
      | Null \<Rightarrow> Inr None)"


section \<open>MetaPreview\<close>

record google =
  url_display :: "string js"
  google_title :: "string js"
  google_description :: "string js"

record social =
  og_title :: "string js"
  og_description :: "string js"
  twitter_title :: "string js"
  twitter_description :: "string js"

record character_counts =
  title_length :: "jsnum js"
  title_optimal :: "bool js"
  description_length :: "jsnum js"
  description_optimal :: "bool js"

record meta_preview =
  google :: "google js"
  social :: "social js"
  character_counts :: "character_counts js"

text \<open>
  The holes of the element. \<open>title_ok\<close> and \<open>description_ok\<close> are the tests
  \<open>character_counts?.title_optimal\<close> and \<open>character_counts?.description_optimal\<close>, which
  choose the green or orange class and the mark after the count.
\<close>

record meta_view =
  shown_url :: child
  shown_title :: child
  shown_description :: child
  title_ok :: bool
  title_count :: child
  description_ok :: bool
  description_count :: child
  facebook_title :: child
  facebook_description :: child
  tweet_title :: child
  tweet_description :: child

definition MetaPreview ::
  "meta_preview js \<Rightarrow> string js \<Rightarrow> string js \<Rightarrow> string js \<Rightarrow> error + meta_view option" where
  "MetaPreview metaPreview title description url =
     (case metaPreview of
        Val m \<Rightarrow>
          Inr (Some \<lparr>shown_url = str_child (opt_chain (google m) url_display),
                     shown_title = str_child (opt_chain (google m) google_title),
                     shown_description = str_child (opt_chain (google m) google_description),
                     title_ok = truthy_bool (opt_chain (character_counts m) title_optimal),
                     title_count = num_child (opt_chain (character_counts m) title_length),
                     description_ok = truthy_bool (opt_chain (character_counts m) description_optimal),
                     description_count = num_child (opt_chain (character_counts m) description_length),
                     facebook_title = str_child (opt_chain (social m) og_title),
                     facebook_description = str_child (opt_chain (social m) og_description),
                     tweet_title = str_child (opt_chain (social m) twitter_title),
                     tweet_description = str_child (opt_chain (social m) twitter_description)\<rparr>)
      | Undefined \<Rightarrow> Inr None
      | Null \<Rightarrow> Inr None)"


section \<open>TrafficInsights\<close>

record estimated_monthly_traffic =
  low :: "jsnum js"
  mid :: "jsnum js"
  high :: "jsnum js"

record factors =
  keyword_count :: "jsnum js"
  quality_score :: "jsnum js"
  readability_score :: "jsnum js"
  content_length :: "jsnum js"

record traffic_prediction =
  estimated_monthly_traffic :: "estimated_monthly_traffic js"
  traffic_tier :: "string js"
  factors :: "factors js"
  traffic_recommendations :: "string list js"

record keyword_gap =
  coverage_score :: "jsnum js"
  covered :: "jsnum js"
  missing :: "jsnum js"
  total_expected :: "jsnum js"
  missing_keywords :: "string list js"

record featured_snippet =
  featured_optimized :: "bool js"

record list_snippet =
  list_optimized :: "bool js"
  list_count :: "jsnum js"
  list_recommendation :: "string js"

record serp =
  featured_snippet :: "featured_snippet js"
  list_snippet :: "list_snippet js"

definition getTierColor :: "string js \<Rightarrow> string" where
  "getTierColor tier =
     (if tier = Val ''High'' then ''text-green-600 bg-green-100''
      else if tier = Val ''Medium'' then ''text-orange-600 bg-orange-100''
      else ''text-blue-600 bg-blue-100'')"

record keyword_gap_view =
  coverage_text :: child
  coverage_width :: jsnum
  covered_text :: child
  missing_text :: child
  expected_text :: child
  missing_shown :: "string list option"

definition keyword_gap_section :: "keyword_gap \<Rightarrow> keyword_gap_view" where
  "keyword_gap_section g =
     \<lparr>coverage_text = fmt_or_zero (toFixed 0 (coverage_score g)),
      coverage_width = num_or_zero (coverage_score g),
      covered_text = NumChild (num_or_zero (covered g)),
      missing_text = NumChild (num_or_zero (missing g)),
      expected_text = NumChild (num_or_zero (total_expected g)),
      missing_shown = map_option (take 8) (non_empty_list (missing_keywords g))\<rparr>"

record featured_view =
  featured_ok :: bool
  featured_message :: string

record list_view =
  list_ok :: bool
  list_items :: child
  list_message :: child

definition featured_section :: "featured_snippet \<Rightarrow> featured_view" where
  "featured_section f =
     \<lparr>featured_ok = truthy_bool (featured_optimized f),
      featured_message =
        (if truthy_bool (featured_optimized f)
         then ''Content is optimized for featured snippets''
         else ''Add clear definitions in first paragraph'')\<rparr>"

definition list_section :: "list_snippet \<Rightarrow> list_view" where
  "list_section l =
     \<lparr>list_ok = truthy_bool (list_optimized l),
      list_items = NumChild (num_or_zero (list_count l)),
      list_message =
        (if truthy_bool (list_optimized l)
         then StrChild ''Great! Lists are well structured''
         else str_child (list_recommendation l))\<rparr>"

record serp_view =
  featured :: "featured_view option"
  listed :: "list_view option"

text \<open>\<open>x && (...)\<close> on an object or absent value: the section when the object is there.\<close>

fun when_present :: "'a js \<Rightarrow> ('a \<Rightarrow> 'b) \<Rightarrow> 'b option" where
  "when_present (Val a) f = Some (f a)"
| "when_present Undefined f = None"
| "when_present Null f = None"

definition serp_section :: "serp \<Rightarrow> serp_view" where
  "serp_section s =
     \<lparr>featured = when_present (featured_snippet s) featured_section,
      listed = when_present (list_snippet s) list_section\<rparr>"

record traffic_view =
  low_text :: child
  mid_text :: child
  high_text :: child
  tier_class :: string
  tier_text :: "string js"
  keywords_text :: child
  quality_text :: child
  readability_text :: child
  words_text :: child
  keyword_gap_card :: "keyword_gap_view option"
  serp_card :: "serp_view option"
  traffic_recommendation_items :: "string list option"

text \<open>The fourth prop, \<open>freshness\<close>, is accepted and never read.\<close>

definition TrafficInsights ::
  "traffic_prediction js \<Rightarrow> keyword_gap js \<Rightarrow> serp js \<Rightarrow> freshness js \<Rightarrow> error + traffic_view option" where
  "TrafficInsights trafficPrediction keywordGap srp fr =
     (case trafficPrediction of
        Val t \<Rightarrow>
          Inr (Some \<lparr>low_text = fmt_or_zero (toLocaleString (opt_chain (estimated_monthly_traffic t) low)),
                     mid_text = fmt_or_zero (toLocaleString (opt_chain (estimated_monthly_traffic t) mid)),
                     high_text = fmt_or_zero (toLocaleString (opt_chain (estimated_monthly_traffic t) high)),
                     tier_class = getTierColor (traffic_tier t),
                     tier_text = traffic_tier t,
                     keywords_text = NumChild (num_or_zero (opt_chain (factors t) keyword_count)),
                     quality_text = fmt_or_zero (toFixed 1 (opt_chain (factors t) quality_score)),
                     readability_text = fmt_or_zero (toFixed 0 (opt_chain (factors t) readability_score)),
                     words_text = NumChild (num_or_zero (opt_chain (factors t) content_length)),
                     keyword_gap_card = when_present keywordGap keyword_gap_section,
                     serp_card = when_present srp serp_section,
                     traffic_recommendation_items = non_empty_list (traffic_recommendations t)\<rparr>)
      | Undefined \<Rightarrow> Inr None
      | Null \<Rightarrow> Inr None)"


section \<open>TopicClusters\<close>

text \<open>The field \<open>keywords\<close> of a cluster is \<open>topic_keywords\<close> here.\<close>

record cluster =
  topic :: "string js"
  relationship :: "string js"
  topic_keywords :: "string list js"

record topic_clusters =
  pillar_topic :: "string js"
  pillar_keywords :: "string list js"
  cluster_topics :: "cluster list js"

record cluster_view =
  cluster_title :: child
  cluster_relationship :: child
  cluster_keywords :: "string list option"

definition cluster_card :: "cluster \<Rightarrow> cluster_view" where
  "cluster_card c =
     \<lparr>cluster_title = str_child (topic c),
      cluster_relationship = str_child (relationship c),
      cluster_keywords = non_empty_list (topic_keywords c)\<rparr>"

record topic_view =
  pillar_text :: child
  pillar_keyword_items :: "string list option"
  cluster_cards :: "cluster_view list option"

definition TopicClusters :: "topic_clusters js \<Rightarrow> error + topic_view option" where
  "TopicClusters topicClusters =
     (case topicClusters of
        Val t \<Rightarrow>
          (if \<not> truthy_str (pillar_topic t) then Inr None
           else Inr (Some \<lparr>pillar_text = str_child (pillar_topic t),
                            pillar_keyword_items = non_empty_list (pillar_keywords t),
                            cluster_cards = map_option (map cluster_card) (non_empty_list (cluster_topics t))\<rparr>))
      | Undefined \<Rightarrow> Inr None
      | Null \<Rightarrow> Inr None)"


section \<open>Effects of the pages: notifications and requests\<close>

text \<open>
  A page's handlers are run to completion one at a time by the event loop. A handler
  that awaits a request is split where it awaits: the first part ends by sending the
  request, and one more function for each way the request can settle runs the rest.
  The path of a request is relative to \<open>API\<close>, the backend origin followed by \<open>/api\<close>.
\<close>

datatype toast = ToastError string | ToastSuccess string

datatype request =
    Get string
  | Post string "(string \<times> string) list"
  | Delete string

text \<open>
  What every component leaves behind: the notifications shown and the requests sent,
  oldest first. A page also has its \<open>loading\<close> flag.
\<close>

record effects =
  toasts :: "toast list"
  requests :: "request list"

record page = effects +
  loading :: bool


section \<open>AddContent\<close>

text \<open>
  The state of the page. \<open>timers\<close> holds the calls of \<open>setTimeout\<close> that have not run
  yet, each with its delay in milliseconds and the path it navigates to; \<open>location\<close>
  is the route shown.
\<close>

record add_content = page +
  inputType :: string
  url :: string
  title :: string
  content :: string
  timers :: "(nat \<times> string) list"
  location :: string

definition AddContent :: add_content where
  "AddContent =
     \<lparr>toasts = [], requests = [], loading = False,
      inputType = ''url'', url = [], title = [], content = [],
      timers = [], location = ''/add''\<rparr>"

definition payload :: "add_content \<Rightarrow> (string \<times> string) list" where
  "payload s =
     (''input_type'', inputType s) #
     (if inputType s = ''url'' then [(''url'', url s)]
      else [(''title'', title s), (''content'', content s)])"

text \<open>\<open>handleSubmit\<close> up to \<open>await axios.post\<close>.\<close>

definition handleSubmit :: "add_content \<Rightarrow> add_content" where
  "handleSubmit s =
     (if inputType s = ''url'' \<and> url s = [] then
        s\<lparr>toasts := toasts s @ [ToastError ''Please enter a URL'']\<rparr>
      else if inputType s = ''manual'' \<and> (title s = [] \<or> content s = []) then
        s\<lparr>toasts := toasts s @ [ToastError ''Please fill in all fields'']\<rparr>
      else
        s\<lparr>loading := True, requests := requests s @ [Post ''/content'' (payload s)]\<rparr>)"

text \<open>
  The rest of \<open>handleSubmit\<close> when the request resolves; \<open>new_id\<close> is \<open>response.data.id\<close>.
\<close>

definition submit_resolved :: "string \<Rightarrow> add_content \<Rightarrow> add_content" where
  "submit_resolved new_id s =
     s\<lparr>toasts := toasts s @ [ToastSuccess ''Content added successfully! Generating traffic strategies...''],
       timers := timers s @ [(1500, ''/content/'' @ new_id)],
       loading := False\<rparr>"

text \<open>The error that axios rejects with: \<open>error.response?.data?.detail\<close> is read from it.\<close>

record error_data =
  detail :: "string js"

record error_response =
  data :: "error_data js"

record axios_error =
  response :: "error_response js"

definition failure_message :: "axios_error \<Rightarrow> string" where
  "failure_message e =
     (case opt_chain (opt_chain (response e) data) detail of
        Val d \<Rightarrow> (if d \<noteq> [] then d else ''Failed to add content'')
      | Undefined \<Rightarrow> ''Failed to add content''
      | Null \<Rightarrow> ''Failed to add content'')"

text \<open>The rest of \<open>handleSubmit\<close> when the request rejects: \<open>catch\<close>, then \<open>finally\<close>.\<close>

definition submit_rejected :: "axios_error \<Rightarrow> add_content \<Rightarrow> add_content" where
  "submit_rejected e s =
     s\<lparr>toasts := toasts s @ [ToastError (failure_message e)], loading := False\<rparr>"

text \<open>The oldest pending timer runs: \<open>navigate\<close> changes the route.\<close>

definition timer_fires :: "add_content \<Rightarrow> add_content" where
  "timer_fires s =
     (case timers s of
        [] \<Rightarrow> s
      | (d, path) # rest \<Rightarrow> s\<lparr>timers := rest, location := path\<rparr>)"

text \<open>The submit button is disabled (\<open>disabled={loading}\<close>) while the request is pending.\<close>

definition submit_enabled :: "add_content \<Rightarrow> bool" where
  "submit_enabled s = (\<not> loading s)"

text \<open>
  The validation rule as the specification words it: url mode requires a non-empty
  url, manual mode requires both a non-empty title and non-empty content.
\<close>

definition spec_valid :: "add_content \<Rightarrow> bool" where
  "spec_valid s =
     (if inputType s = ''url'' then url s \<noteq> []
      else title s \<noteq> [] \<and> content s \<noteq> [])"


section \<open>Dashboard\<close>

text \<open>
  The state of the page; \<open>'a\<close> is the analytics summary and \<open>'c\<close> an entry of the
  content list, both shown as the backend sent them.
\<close>

record ('a, 'c) dashboard = page +
  analytics :: "'a js"
  contents :: "'c list"
  deleteDialogOpen :: bool
  contentToDelete :: "string js"

definition Dashboard :: "('a, 'c) dashboard" where
  "Dashboard =
     \<lparr>toasts = [], requests = [], loading = True,
      analytics = Null, contents = [], deleteDialogOpen = False, contentToDelete = Null\<rparr>"

text \<open>\<open>fetchData\<close> up to \<open>await Promise.all\<close>: both requests are sent.\<close>

definition fetchData :: "('a, 'c) dashboard \<Rightarrow> ('a, 'c) dashboard" where
  "fetchData s =
     s\<lparr>loading := True, requests := requests s @ [Get ''/analytics'', Get ''/content'']\<rparr>"

definition fetchData_resolved :: "'a js \<Rightarrow> 'c list \<Rightarrow> ('a, 'c) dashboard \<Rightarrow> ('a, 'c) dashboard" where
  "fetchData_resolved a cs s = s\<lparr>analytics := a, contents := cs, loading := False\<rparr>"

definition fetchData_rejected :: "('a, 'c) dashboard \<Rightarrow> ('a, 'c) dashboard" where
  "fetchData_rejected s =
     s\<lparr>toasts := toasts s @ [ToastError ''Failed to load data''], loading := False\<rparr>"

text \<open>The bin button of an entry: it only opens the dialog.\<close>

definition openDeleteDialog :: "string \<Rightarrow> ('a, 'c) dashboard \<Rightarrow> ('a, 'c) dashboard" where
  "openDeleteDialog contentId s = s\<lparr>contentToDelete := Val contentId, deleteDialogOpen := True\<rparr>"

text \<open>
  The dialog's Cancel button: the dialog reports \<open>onOpenChange(false)\<close>, which is
  \<open>setDeleteDialogOpen\<close>.
\<close>

definition cancelDelete :: "('a, 'c) dashboard \<Rightarrow> ('a, 'c) dashboard" where
  "cancelDelete s = s\<lparr>deleteDialogOpen := False\<rparr>"

text \<open>The dialog's Delete button: \<open>handleDelete\<close> up to \<open>await axios.delete\<close>.\<close>

definition handleDelete :: "('a, 'c) dashboard \<Rightarrow> ('a, 'c) dashboard" where
  "handleDelete s =
     (case contentToDelete s of
        Val contentId \<Rightarrow>
          (if contentId = [] then s
           else s\<lparr>requests := requests s @ [Delete (''/content/'' @ contentId)]\<rparr>)
      | Undefined \<Rightarrow> s
      | Null \<Rightarrow> s)"

text \<open>The rest of \<open>handleDelete\<close> when the request resolves, and when it rejects.\<close>

definition delete_resolved :: "('a, 'c) dashboard \<Rightarrow> ('a, 'c) dashboard" where
  "delete_resolved s =
     fetchData
       (s\<lparr>toasts := toasts s @ [ToastSuccess ''Content deleted successfully''],
          deleteDialogOpen := False,
          contentToDelete := Null\<rparr>)"

definition delete_rejected :: "('a, 'c) dashboard \<Rightarrow> ('a, 'c) dashboard" where
  "delete_rejected s = s\<lparr>toasts := toasts s @ [ToastError ''Failed to delete content'']\<rparr>"


section \<open>EnhancedContentDetails\<close>

text \<open>How far one of the two requests of \<open>fetchContent\<close> has come.\<close>

datatype 'a slot = Unsent | Pending | Fulfilled 'a | Failed

text \<open>
  The state of the page; \<open>'c\<close> is a content record and \<open>'q\<close> a query. The state
  variable \<open>content\<close> of the source is \<open>content_record\<close> here. \<open>content_request\<close> and
  \<open>queries_request\<close> follow the two requests of the call of \<open>fetchContent\<close> in flight,
  and \<open>settled\<close> says that its \<open>await Promise.all\<close> has been left, so that nothing
  listens to the requests any more.
\<close>

record ('c, 'q) content_details = page +
  content_record :: "'c js"
  queries :: "'q list"
  content_request :: "'c js slot"
  queries_request :: "'q list slot"
  settled :: bool

definition EnhancedContentDetails :: "('c, 'q) content_details" where
  "EnhancedContentDetails =
     \<lparr>toasts = [], requests = [], loading = True,
      content_record = Null, queries = [],
      content_request = Unsent, queries_request = Unsent, settled = True\<rparr>"

text \<open>
  \<open>fetchContent\<close> up to \<open>await Promise.all\<close>: both requests are sent before it waits.
  The effect of the first render calls it with the \<open>id\<close> of the route.
\<close>

definition fetchContent :: "string \<Rightarrow> ('c, 'q) content_details \<Rightarrow> ('c, 'q) content_details" where
  "fetchContent ident s =
     s\<lparr>loading := True,
       requests := requests s @ [Get (''/content/'' @ ident), Get (''/queries/'' @ ident)],
       content_request := Pending, queries_request := Pending, settled := False\<rparr>"

text \<open>The page after its first render and the effect that follows it.\<close>

definition mounted :: "string \<Rightarrow> ('c, 'q) content_details" where
  "mounted ident = fetchContent ident EnhancedContentDetails"

text \<open>
  \<open>Promise.all\<close> rejects as soon as one of its promises rejects and resolves when all
  have resolved. \<open>join\<close> runs what follows the \<open>await\<close> once that is decided: the two
  setters when both requests resolved, the \<open>catch\<close> block when one rejected, and the
  \<open>finally\<close> block after either.
\<close>

definition join :: "('c, 'q) content_details \<Rightarrow> ('c, 'q) content_details" where
  "join s =
     (if settled s then s
      else if content_request s = Failed \<or> queries_request s = Failed then
        s\<lparr>toasts := toasts s @ [ToastError ''Failed to load content''],
          loading := False, settled := True\<rparr>
      else
        (case (content_request s, queries_request s) of
           (Fulfilled c, Fulfilled qs) \<Rightarrow>
             s\<lparr>content_record := c, queries := qs, loading := False, settled := True\<rparr>
         | _ \<Rightarrow> s))"

text \<open>
  The network settles a request: a request settles once, so an event for a request
  that is no longer pending changes nothing.
\<close>

datatype ('c, 'q) settlement =
    ContentResolved "'c js"
  | ContentRejected
  | QueriesResolved "'q list"
  | QueriesRejected

fun settle :: "('c, 'q) settlement \<Rightarrow> ('c, 'q) content_details \<Rightarrow> ('c, 'q) content_details" where
  "settle (ContentResolved c) s =
     (if content_request s = Pending then join (s\<lparr>content_request := Fulfilled c\<rparr>) else s)"
| "settle ContentRejected s =
     (if content_request s = Pending then join (s\<lparr>content_request := Failed\<rparr>) else s)"
| "settle (QueriesResolved qs) s =
     (if queries_request s = Pending then join (s\<lparr>queries_request := Fulfilled qs\<rparr>) else s)"
| "settle QueriesRejected s =
     (if queries_request s = Pending then join (s\<lparr>queries_request := Failed\<rparr>) else s)"

fun settle_all :: "('c, 'q) settlement list \<Rightarrow> ('c, 'q) content_details \<Rightarrow> ('c, 'q) content_details" where
  "settle_all [] s = s"
| "settle_all (e # es) s = settle_all es (settle e s)"

text \<open>What the page returns: the spinner, the not-found line, or the tabs.\<close>

datatype ('c, 'q) details_render = Spinner | ContentNotFound | Details 'c "'q list"

definition render_details :: "('c, 'q) content_details \<Rightarrow> ('c, 'q) details_render" where
  "render_details s =
     (if loading s then Spinner
      else case content_record s of
             Val c \<Rightarrow> Details c (queries s)
           | Undefined \<Rightarrow> ContentNotFound
           | Null \<Rightarrow> ContentNotFound)"

text \<open>A request of the call in flight has not settled yet.\<close>

definition either_pending :: "('c, 'q) content_details \<Rightarrow> bool" where
  "either_pending s = (content_request s = Pending \<or> queries_request s = Pending)"

definition either_failed :: "('c, 'q) content_details \<Rightarrow> bool" where
  "either_failed s = (content_request s = Failed \<or> queries_request s = Failed)"

text \<open>
  What holds of the page from a call of \<open>fetchContent\<close> on, whatever settles: \<open>ts\<close>, \<open>c0\<close>
  and \<open>q0\<close> are the notifications, the content and the queries the page had at the
  call, \<open>rs\<close> the requests sent up to and by the call.
\<close>

definition fetch_inv ::
  "toast list \<Rightarrow> request list \<Rightarrow> 'c js \<Rightarrow> 'q list \<Rightarrow> ('c, 'q) content_details \<Rightarrow> bool" where
  "fetch_inv ts rs c0 q0 s =
     (toasts s = (if either_failed s then ts @ [ToastError ''Failed to load content''] else ts)
      \<and> requests s = rs
      \<and> content_request s \<noteq> Unsent
      \<and> queries_request s \<noteq> Unsent
      \<and> settled s = (either_failed s \<or> \<not> either_pending s)
      \<and> loading s = (\<not> settled s)
      \<and> (if either_failed s \<or> either_pending s
          then content_record s = c0 \<and> queries s = q0
          else content_request s = Fulfilled (content_record s)
               \<and> queries_request s = Fulfilled (queries s)))"


section \<open>ExportModal\<close>

text \<open>
  The state of the modal: \<open>copied\<close> is the one state variable both copy buttons set.
  \<open>clipboard\<close> lists what was written to the clipboard, \<open>now\<close> is the time in
  milliseconds, and \<open>reverts\<close> holds, for each \<open>setTimeout(() => setCopied(null), 2000)\<close>
  that has not run yet, the time at which it is due.
\<close>

record export_modal = effects +
  copied :: "string js"
  clipboard :: "string list"
  now :: nat
  reverts :: "nat list"

definition ExportModal :: export_modal where
  "ExportModal = \<lparr>toasts = [], requests = [], copied = Null, clipboard = [], now = 0, reverts = []\<rparr>"

text \<open>\<open>origin\<close> is \<open>window.location.origin\<close>.\<close>

definition copyShareLink :: "string \<Rightarrow> string \<Rightarrow> export_modal \<Rightarrow> export_modal" where
  "copyShareLink origin contentId s =
     s\<lparr>clipboard := clipboard s @ [origin @ ''/share/'' @ contentId],
       copied := Val ''link'',
       toasts := toasts s @ [ToastSuccess ''Share link copied!''],
       reverts := reverts s @ [now s + 2000]\<rparr>"

definition copySitemapUrl :: "string \<Rightarrow> export_modal \<Rightarrow> export_modal" where
  "copySitemapUrl origin s =
     s\<lparr>clipboard := clipboard s @ [origin @ ''/api/sitemap.xml''],
       copied := Val ''sitemap'',
       toasts := toasts s @ [ToastSuccess ''Sitemap URL copied!''],
       reverts := reverts s @ [now s + 2000]\<rparr>"

text \<open>
  Time passes: every timeout that has come due runs \<open>setCopied(null)\<close> and is gone.
\<close>

definition elapse :: "nat \<Rightarrow> export_modal \<Rightarrow> export_modal" where
  "elapse d s =
     (let t = now s + d in
      s\<lparr>copied := (if list_ex (\<lambda>due. due \<le> t) (reverts s) then Null else copied s),
        now := t,
        reverts := filter (\<lambda>due. t < due) (reverts s)\<rparr>)"

text \<open>Which button shows the check mark instead of the copy icon.\<close>

definition link_acknowledged :: "export_modal \<Rightarrow> bool" where
  "link_acknowledged s = (copied s = Val ''link'')"

definition sitemap_acknowledged :: "export_modal \<Rightarrow> bool" where
  "sitemap_acknowledged s = (copied s = Val ''sitemap'')"


section \<open>Properties of the section renderers\<close>

lemma absent_iff: "absent v = (v = Undefined \<or> v = Null)"
  by (cases v) simp_all

text \<open>
  C1. Each of the five section renderers (SEOScoreCard, ContentFreshness,
  TrafficInsights, MetaPreview, TopicClusters) returns \<open>null\<close> when the slice it is given
  is \<open>null\<close> or \<open>undefined\<close>, whatever its other props are: it throws no error and
  returns no element.
\<close>

theorem absent_slice_renders_nothing:
  "(\<forall>seoScore. absent seoScore \<longrightarrow> SEOScoreCard seoScore = Inr None)
   \<and> (\<forall>fr contentId onRefresh. absent fr \<longrightarrow> ContentFreshness fr contentId onRefresh = Inr None)
   \<and> (\<forall>trafficPrediction keywordGap srp fr.
         absent trafficPrediction \<longrightarrow> TrafficInsights trafficPrediction keywordGap srp fr = Inr None)
   \<and> (\<forall>metaPreview t d u. absent metaPreview \<longrightarrow> MetaPreview metaPreview t d u = Inr None)
   \<and> (\<forall>topicClusters. absent topicClusters \<longrightarrow> TopicClusters topicClusters = Inr None)"
  by (auto simp: absent_iff SEOScoreCard_def ContentFreshness_def TrafficInsights_def
        MetaPreview_def TopicClusters_def)

theorem absent_slice_renders_nothing_witness:
  "absent (Undefined :: seo_score js) \<and> SEOScoreCard Undefined = Inr None
   \<and> ContentFreshness Null ''c1'' True = Inr None
   \<and> TrafficInsights Undefined Null Null Null = Inr None
   \<and> MetaPreview Null Undefined Undefined Undefined = Inr None
   \<and> TopicClusters Undefined = Inr None"
  using absent_slice_renders_nothing by simp

text \<open>
  C9. For a seo_score slice that is present, SEOScoreCard throws a \<open>TypeError\<close> exactly
  when the \<open>grade\<close> field is \<open>null\<close> or \<open>undefined\<close> (\<open>grade.startsWith\<close> is called with
  no check); when \<open>grade\<close> is a string it returns an element. It never renders nothing
  for a present slice.
\<close>

theorem seo_throws_without_grade:
  "(SEOScoreCard (Val s) = Inl TypeError) = absent (grade s)
   \<and> (\<not> absent (grade s) \<longrightarrow> (\<exists>v. SEOScoreCard (Val s) = Inr (Some v)))
   \<and> SEOScoreCard (Val s) \<noteq> Inr None"
  by (cases "grade s") (auto simp: SEOScoreCard_def getGradeColor_def split: sum.splits bool.splits)

theorem seo_throws_without_grade_witness:
  "SEOScoreCard (Val \<lparr>overall_score = Val (Fin 72), breakdown = Undefined,
                       grade = Null, recommendations = Undefined\<rparr>) = Inl TypeError
   \<and> \<not> absent (Val ''B+'' :: string js)
   \<and> (\<exists>v. SEOScoreCard (Val \<lparr>overall_score = Val (Fin 72), breakdown = Undefined,
                                grade = Val ''B+'', recommendations = Undefined\<rparr>) = Inr (Some v))"
  using seo_throws_without_grade
          [of "\<lparr>overall_score = Val (Fin 72), breakdown = Undefined,
                grade = Null, recommendations = Undefined\<rparr>"]
        seo_throws_without_grade
          [of "\<lparr>overall_score = Val (Fin 72), breakdown = Undefined,
                grade = Val ''B+'', recommendations = Undefined\<rparr>"]
  by simp

text \<open>
  C10. TopicClusters returns \<open>null\<close> exactly when the slice is \<open>null\<close> or \<open>undefined\<close>, or
  the slice is present and its \<open>pillar_topic\<close> is absent or the empty string. It never
  throws.
\<close>

theorem topic_clusters_guard:
  "(TopicClusters topicClusters = Inr None) =
     (absent topicClusters \<or>
      (\<exists>t. topicClusters = Val t \<and> (absent (pillar_topic t) \<or> pillar_topic t = Val [])))
   \<and> TopicClusters topicClusters \<noteq> Inl TypeError"
proof (cases topicClusters)
  case (Val t)
  then show ?thesis
    by (cases "pillar_topic t") (simp_all add: TopicClusters_def)
qed (simp_all add: TopicClusters_def)

theorem topic_clusters_guard_witness:
  "TopicClusters (Val \<lparr>pillar_topic = Val [], pillar_keywords = Val [''seo''],
                       cluster_topics = Val []\<rparr>) = Inr None
   \<and> TopicClusters (Val \<lparr>pillar_topic = Undefined, pillar_keywords = Val [''seo''],
                         cluster_topics = Val []\<rparr>) = Inr None"
  using topic_clusters_guard
          [of "Val \<lparr>pillar_topic = Val [], pillar_keywords = Val [''seo''], cluster_topics = Val []\<rparr>"]
        topic_clusters_guard
          [of "Val \<lparr>pillar_topic = Undefined, pillar_keywords = Val [''seo''], cluster_topics = Val []\<rparr>"]
  by simp


text \<open>
  C3. The score bands. For a finite score \<open>r\<close>, SEOScoreCard colours the overall score
  and its bar green from 85, blue from 70, orange from 50 and red below;
  ContentFreshness picks the green gradient from 90, blue from 75, orange from 60 and
  red below; TrafficInsights colours the tier High green, Medium orange and every other
  tier blue. The lower bound of each band is inclusive: 90, 85, 75, 70, 60 and 50 fall
  in the higher band. Each mapping returns a class for every input; a score that is
  absent or \<open>NaN\<close> falls in the last band, red.
\<close>

theorem score_bands:
  "(85 \<le> r \<longrightarrow> seo_getScoreColor (Val (Fin r)) = ''text-green-600''
                \<and> seo_bar_class (Val (Fin r)) = ''bg-green-600'')
   \<and> (70 \<le> r \<and> r < 85 \<longrightarrow> seo_getScoreColor (Val (Fin r)) = ''text-blue-600''
                \<and> seo_bar_class (Val (Fin r)) = ''bg-blue-600'')
   \<and> (50 \<le> r \<and> r < 70 \<longrightarrow> seo_getScoreColor (Val (Fin r)) = ''text-orange-600''
                \<and> seo_bar_class (Val (Fin r)) = ''bg-orange-600'')
   \<and> (r < 50 \<longrightarrow> seo_getScoreColor (Val (Fin r)) = ''text-red-600''
                \<and> seo_bar_class (Val (Fin r)) = ''bg-red-600'')
   \<and> (90 \<le> r \<longrightarrow> freshness_getScoreColor (Val (Fin r)) = ''from-green-500 to-green-600'')
   \<and> (75 \<le> r \<and> r < 90 \<longrightarrow> freshness_getScoreColor (Val (Fin r)) = ''from-blue-500 to-blue-600'')
   \<and> (60 \<le> r \<and> r < 75 \<longrightarrow> freshness_getScoreColor (Val (Fin r)) = ''from-orange-500 to-orange-600'')
   \<and> (r < 60 \<longrightarrow> freshness_getScoreColor (Val (Fin r)) = ''from-red-500 to-red-600'')
   \<and> getTierColor (Val ''High'') = ''text-green-600 bg-green-100''
   \<and> getTierColor (Val ''Medium'') = ''text-orange-600 bg-orange-100''
   \<and> (tier \<noteq> Val ''High'' \<and> tier \<noteq> Val ''Medium'' \<longrightarrow> getTierColor tier = ''text-blue-600 bg-blue-100'')
   \<and> seo_getScoreColor (Val (Fin 85)) = ''text-green-600''
   \<and> seo_getScoreColor (Val (Fin 70)) = ''text-blue-600''
   \<and> seo_getScoreColor (Val (Fin 50)) = ''text-orange-600''
   \<and> freshness_getScoreColor (Val (Fin 90)) = ''from-green-500 to-green-600''
   \<and> freshness_getScoreColor (Val (Fin 75)) = ''from-blue-500 to-blue-600''
   \<and> freshness_getScoreColor (Val (Fin 60)) = ''from-orange-500 to-orange-600''
   \<and> (absent x \<or> x = Val NaN \<longrightarrow>
         seo_getScoreColor x = ''text-red-600'' \<and> freshness_getScoreColor x = ''from-red-500 to-red-600'')"
  by (auto simp: seo_getScoreColor_def seo_bar_class_def freshness_getScoreColor_def
        getTierColor_def js_ge_def absent_iff)

theorem score_bands_witness:
  "seo_getScoreColor (Val (Fin 84)) = ''text-blue-600''
   \<and> freshness_getScoreColor (Val (Fin 84)) = ''from-blue-500 to-blue-600''
   \<and> getTierColor (Val ''Low'') = ''text-blue-600 bg-blue-100''
   \<and> seo_getScoreColor Undefined = ''text-red-600''"
  using score_bands [of 84 "Val ''Low''" Undefined] by simp

text \<open>
  C2 as stated does not hold: ContentFreshness shows \<open>freshness_score\<close> as it is,
  so a missing score is shown as nothing, not as 0; MetaPreview does the same with the
  two character counts.
\<close>

theorem missing_leaf_shown_blank:
  "ContentFreshness
     (Val \<lparr>freshness_score = Undefined, status = Val ''Fresh'', days_old = Val (Fin 3),
           needs_update = Val False\<rparr>) ''c1'' False
   = Inr (Some \<lparr>fresh_score_text = Blank,
                 status_class = ''text-green-600 bg-green-100'',
                 status_text = StrChild ''Fresh'',
                 gradient_class = ''from-red-500 to-red-600'',
                 gradient_width = Undefined,
                 age = DaysOld (Val (Fin 3)) True,
                 update_alert = UpToDate\<rparr>)
   \<and> MetaPreview
       (Val \<lparr>google = Undefined, social = Undefined,
             character_counts = Val \<lparr>title_length = Undefined, title_optimal = Val True,
                                      description_length = Null, description_optimal = Val False\<rparr>\<rparr>)
       Undefined Undefined Undefined
     = Inr (Some \<lparr>shown_url = Blank, shown_title = Blank, shown_description = Blank,
                   title_ok = True, title_count = Blank,
                   description_ok = False, description_count = Blank,
                   facebook_title = Blank, facebook_description = Blank,
                   tweet_title = Blank, tweet_description = Blank\<rparr>)
   \<and> Blank \<noteq> NumChild (Fin 0)"
  by (simp add: ContentFreshness_def getStatusColor_def freshness_getScoreColor_def js_ge_def
        age_text_def js_gt_def MetaPreview_def)

lemma toLocaleString_absent: "absent v \<Longrightarrow> fmt_or_zero (toLocaleString v) = NumChild (Fin 0)"
  by (cases v) (simp_all add: toLocaleString_def)

lemma toFixed_absent: "absent v \<Longrightarrow> fmt_or_zero (toFixed d v) = NumChild (Fin 0)"
  by (cases v) (simp_all add: toFixed_def)

lemma num_or_zero_absent: "absent v \<Longrightarrow> num_or_zero v = Fin 0"
  by (cases v) simp_all

lemma traffic_fallbacks:
  "\<exists>v. TrafficInsights (Val t) keywordGap srp fr = Inr (Some v)
     \<and> (absent (opt_chain (estimated_monthly_traffic t) low) \<longrightarrow> low_text v = NumChild (Fin 0))
     \<and> (absent (opt_chain (estimated_monthly_traffic t) mid) \<longrightarrow> mid_text v = NumChild (Fin 0))
     \<and> (absent (opt_chain (estimated_monthly_traffic t) high) \<longrightarrow> high_text v = NumChild (Fin 0))
     \<and> (absent (opt_chain (factors t) keyword_count) \<longrightarrow> keywords_text v = NumChild (Fin 0))
     \<and> (absent (opt_chain (factors t) quality_score) \<longrightarrow> quality_text v = NumChild (Fin 0))
     \<and> (absent (opt_chain (factors t) readability_score) \<longrightarrow> readability_text v = NumChild (Fin 0))
     \<and> (absent (opt_chain (factors t) content_length) \<longrightarrow> words_text v = NumChild (Fin 0))
     \<and> (\<forall>g. keywordGap = Val g \<longrightarrow>
           (\<exists>gv. keyword_gap_card v = Some gv
              \<and> (absent (coverage_score g) \<longrightarrow>
                   coverage_text gv = NumChild (Fin 0) \<and> coverage_width gv = Fin 0)
              \<and> (absent (covered g) \<longrightarrow> covered_text gv = NumChild (Fin 0))
              \<and> (absent (missing g) \<longrightarrow> missing_text gv = NumChild (Fin 0))
              \<and> (absent (total_expected g) \<longrightarrow> expected_text gv = NumChild (Fin 0))))
     \<and> (\<forall>sp l. srp = Val sp \<and> list_snippet sp = Val l \<and> absent (list_count l) \<longrightarrow>
           (\<exists>sv lv. serp_card v = Some sv \<and> listed sv = Some lv
              \<and> list_items lv = NumChild (Fin 0)))"
  by (auto simp: TrafficInsights_def keyword_gap_section_def serp_section_def list_section_def
        toLocaleString_absent toFixed_absent num_or_zero_absent)

lemma category_view_key: "row_key (category_view b c) = fst c"
  by (cases c) (simp add: category_view_def)

lemma category_view_absent:
  "absent (breakdown_at b (fst c)) \<Longrightarrow> row_score (category_view b c) = NumChild (Fin 0)"
  by (cases c) (simp add: category_view_def num_or_zero_absent)

lemma seo_fallbacks:
  "grade s = Val g \<Longrightarrow>
   \<exists>v. SEOScoreCard (Val s) = Inr (Some v)
     \<and> map row_key (category_rows v) = map fst categories
     \<and> (\<forall>row \<in> set (category_rows v).
           absent (breakdown_at (breakdown s) (row_key row)) \<longrightarrow> row_score row = NumChild (Fin 0))"
  by (auto simp: SEOScoreCard_def getGradeColor_def category_view_key category_view_absent
        split: sum.splits bool.splits)

lemma unguarded_leaves:
  "(\<exists>v. ContentFreshness (Val f) contentId onRefresh = Inr (Some v)
        \<and> fresh_score_text v = num_child (freshness_score f))
   \<and> (\<exists>v. MetaPreview (Val m) t d u = Inr (Some v)
        \<and> title_count v = num_child (opt_chain (character_counts m) title_length)
        \<and> description_count v = num_child (opt_chain (character_counts m) description_length))"
  by (simp add: ContentFreshness_def MetaPreview_def)

text \<open>
  C2, amended. TrafficInsights always returns an element for a present prediction, and
  in it every numeric leaf that is absent is shown as 0: the three traffic estimates,
  the four factors, and, when the keyword-gap and SERP slices are there, the coverage
  score (text and bar width), the covered, missing and expected counts and the count
  of the list snippet. SEOScoreCard, when it renders, shows 0 for every category whose
  score the breakdown lacks. ContentFreshness and MetaPreview show the freshness score
  and the character counts as they are, with no fallback.
\<close>

theorem numeric_leaves_default_to_zero:
  "(\<exists>v. TrafficInsights (Val t) keywordGap srp fr = Inr (Some v)
     \<and> (absent (opt_chain (estimated_monthly_traffic t) low) \<longrightarrow> low_text v = NumChild (Fin 0))
     \<and> (absent (opt_chain (estimated_monthly_traffic t) mid) \<longrightarrow> mid_text v = NumChild (Fin 0))
     \<and> (absent (opt_chain (estimated_monthly_traffic t) high) \<longrightarrow> high_text v = NumChild (Fin 0))
     \<and> (absent (opt_chain (factors t) keyword_count) \<longrightarrow> keywords_text v = NumChild (Fin 0))
     \<and> (absent (opt_chain (factors t) quality_score) \<longrightarrow> quality_text v = NumChild (Fin 0))
     \<and> (absent (opt_chain (factors t) readability_score) \<longrightarrow> readability_text v = NumChild (Fin 0))
     \<and> (absent (opt_chain (factors t) content_length) \<longrightarrow> words_text v = NumChild (Fin 0))
     \<and> (\<forall>g. keywordGap = Val g \<longrightarrow>
           (\<exists>gv. keyword_gap_card v = Some gv
              \<and> (absent (coverage_score g) \<longrightarrow>
                   coverage_text gv = NumChild (Fin 0) \<and> coverage_width gv = Fin 0)
              \<and> (absent (covered g) \<longrightarrow> covered_text gv = NumChild (Fin 0))
              \<and> (absent (missing g) \<longrightarrow> missing_text gv = NumChild (Fin 0))
              \<and> (absent (total_expected g) \<longrightarrow> expected_text gv = NumChild (Fin 0))))
     \<and> (\<forall>sp l. srp = Val sp \<and> list_snippet sp = Val l \<and> absent (list_count l) \<longrightarrow>
           (\<exists>sv lv. serp_card v = Some sv \<and> listed sv = Some lv
              \<and> list_items lv = NumChild (Fin 0))))
   \<and> (\<forall>g. grade s = Val g \<longrightarrow>
        (\<exists>v. SEOScoreCard (Val s) = Inr (Some v)
           \<and> map row_key (category_rows v) = map fst categories
           \<and> (\<forall>row \<in> set (category_rows v).
                 absent (breakdown_at (breakdown s) (row_key row)) \<longrightarrow>
                 row_score row = NumChild (Fin 0))))
   \<and> (\<exists>v. ContentFreshness (Val f) contentId onRefresh = Inr (Some v)
        \<and> fresh_score_text v = num_child (freshness_score f))
   \<and> (\<exists>v. MetaPreview (Val m) ti de u = Inr (Some v)
        \<and> title_count v = num_child (opt_chain (character_counts m) title_length)
        \<and> description_count v = num_child (opt_chain (character_counts m) description_length))"
  using traffic_fallbacks [of t keywordGap srp fr] seo_fallbacks [of s]
        unguarded_leaves [of f contentId onRefresh m ti de u]
  by blast



theorem numeric_leaves_default_to_zero_witness:
  "\<exists>v. TrafficInsights
         (Val \<lparr>estimated_monthly_traffic = Undefined, traffic_tier = Val ''Medium'',
               factors = Val \<lparr>keyword_count = Null, quality_score = Val (Fin 7),
                              readability_score = Undefined, content_length = Undefined\<rparr>,
               traffic_recommendations = Undefined\<rparr>)
         (Val \<lparr>coverage_score = Undefined, covered = Null, missing = Val (Fin 2),
               total_expected = Undefined, missing_keywords = Undefined\<rparr>)
         Undefined Undefined = Inr (Some v)
       \<and> low_text v = NumChild (Fin 0)
       \<and> mid_text v = NumChild (Fin 0)
       \<and> high_text v = NumChild (Fin 0)
       \<and> keywords_text v = NumChild (Fin 0)
       \<and> readability_text v = NumChild (Fin 0)
       \<and> words_text v = NumChild (Fin 0)
       \<and> (\<exists>gv. keyword_gap_card v = Some gv
              \<and> coverage_text gv = NumChild (Fin 0) \<and> coverage_width gv = Fin 0
              \<and> covered_text gv = NumChild (Fin 0)
              \<and> expected_text gv = NumChild (Fin 0))"
  using numeric_leaves_default_to_zero
    [of "\<lparr>estimated_monthly_traffic = Undefined, traffic_tier = Val ''Medium'',
               factors = Val \<lparr>keyword_count = Null, quality_score = Val (Fin 7),
                              readability_score = Undefined, content_length = Undefined\<rparr>,
               traffic_recommendations = Undefined\<rparr>"
        "Val \<lparr>coverage_score = Undefined, covered = Null, missing = Val (Fin 2),
               total_expected = Undefined, missing_keywords = Undefined\<rparr>"
        Undefined Undefined, THEN conjunct1]
  by simp


section \<open>Properties of the pages\<close>

text \<open>
  C5. With the input mode one of the two the tabs offer, submitting sends a POST to
  \<open>/content\<close> exactly when the input is valid in the specification's sense. On valid
  input the payload is \<open>{input_type: 'url', url}\<close> or
  \<open>{input_type: 'manual', title, content}\<close> and no error is shown; on invalid input
  nothing is sent and an error notification is added. When the request resolves, one
  timer of 1500 ms is set, the route is unchanged until it runs, and when it runs the
  page is at \<open>/content/{id}\<close>.
\<close>

theorem submit_posts_iff_valid:
  assumes "inputType s = ''url'' \<or> inputType s = ''manual''"
  shows "((\<exists>p. requests (handleSubmit s) = requests s @ [Post ''/content'' p]) = spec_valid s)
   \<and> (spec_valid s \<longrightarrow>
         requests (handleSubmit s) = requests s @
           [Post ''/content''
              (if inputType s = ''url'' then [(''input_type'', ''url''), (''url'', url s)]
               else [(''input_type'', ''manual''), (''title'', title s), (''content'', content s)])]
         \<and> toasts (handleSubmit s) = toasts s
         \<and> loading (handleSubmit s))
   \<and> (\<not> spec_valid s \<longrightarrow>
         requests (handleSubmit s) = requests s
         \<and> (\<exists>m. toasts (handleSubmit s) = toasts s @ [ToastError m]))
   \<and> (timers s = [] \<longrightarrow>
         timers (submit_resolved new_id (handleSubmit s)) = [(1500, ''/content/'' @ new_id)]
         \<and> location (submit_resolved new_id (handleSubmit s)) = location s
         \<and> location (timer_fires (submit_resolved new_id (handleSubmit s))) = ''/content/'' @ new_id)"
  using assms
  by (auto simp: handleSubmit_def spec_valid_def payload_def submit_resolved_def timer_fires_def)

theorem submit_posts_iff_valid_witness:
  "requests (handleSubmit (AddContent\<lparr>inputType := ''manual'', title := ''T'', content := ''C''\<rparr>))
     = [Post ''/content'' [(''input_type'', ''manual''), (''title'', ''T''), (''content'', ''C'')]]
   \<and> location (timer_fires (submit_resolved ''abc123''
        (handleSubmit (AddContent\<lparr>inputType := ''manual'', title := ''T'', content := ''C''\<rparr>))))
     = ''/content/abc123''"
  using submit_posts_iff_valid
          [of "AddContent\<lparr>inputType := ''manual'', title := ''T'', content := ''C''\<rparr>" "''abc123''"]
  by (simp add: AddContent_def spec_valid_def)

text \<open>
  C7. When the request of a submission fails, the notification shows the backend's
  \<open>detail\<close> when there is a non-empty one, and \<open>Failed to add content\<close> when there is
  none (no response, no data, no detail), or when it is empty. The page is idle again:
  not loading, the submit button enabled, no timer set, the route unchanged, and no
  further request sent.
\<close>

theorem submit_failure_message:
  "(response e = Val r \<and> data r = Val b \<and> detail b = Val d \<and> d \<noteq> [] \<longrightarrow>
      toasts (submit_rejected e s) = toasts s @ [ToastError d])
   \<and> (absent (opt_chain (opt_chain (response e) data) detail) \<longrightarrow>
      toasts (submit_rejected e s) = toasts s @ [ToastError ''Failed to add content''])
   \<and> (opt_chain (opt_chain (response e) data) detail = Val [] \<longrightarrow>
      toasts (submit_rejected e s) = toasts s @ [ToastError ''Failed to add content''])
   \<and> \<not> loading (submit_rejected e s)
   \<and> submit_enabled (submit_rejected e s)
   \<and> timers (submit_rejected e s) = timers s
   \<and> location (submit_rejected e s) = location s
   \<and> requests (submit_rejected e s) = requests s"
  by (auto simp: submit_rejected_def failure_message_def submit_enabled_def absent_iff)

theorem submit_failure_message_witness:
  "toasts (submit_rejected
     \<lparr>response = Val \<lparr>data = Val \<lparr>detail = Val ''URL is required''\<rparr>\<rparr>\<rparr>
     (handleSubmit (AddContent\<lparr>url := ''x''\<rparr>))) = [ToastError ''URL is required'']
   \<and> toasts (submit_rejected \<lparr>response = Undefined\<rparr> (handleSubmit (AddContent\<lparr>url := ''x''\<rparr>)))
       = [ToastError ''Failed to add content'']"
  using submit_failure_message
          [of "\<lparr>response = Val \<lparr>data = Val \<lparr>detail = Val ''URL is required''\<rparr>\<rparr>\<rparr>"
              "\<lparr>data = Val \<lparr>detail = Val ''URL is required''\<rparr>\<rparr>"
              "\<lparr>detail = Val ''URL is required''\<rparr>" "''URL is required''"
              "handleSubmit (AddContent\<lparr>url := ''x''\<rparr>)"]
        submit_failure_message
          [of "\<lparr>response = Undefined\<rparr>" _ _ _ "handleSubmit (AddContent\<lparr>url := ''x''\<rparr>)"]
  by (simp add: AddContent_def handleSubmit_def)

text \<open>
  C6. The bin button of an entry only opens the dialog: it sends nothing and leaves the
  list alone. Cancel closes the dialog, sends nothing and leaves the list alone. Delete,
  for an entry with a non-empty id, sends exactly one \<open>DELETE /content/{id}\<close> and does
  not touch the list. When that request resolves, the page sends the analytics and the
  list requests again and shows the spinner; the list is still the old one until the
  new list arrives and replaces it.
\<close>

theorem delete_needs_confirmation:
  "requests (openDeleteDialog i s) = requests s
   \<and> contents (openDeleteDialog i s) = contents s
   \<and> deleteDialogOpen (openDeleteDialog i s)
   \<and> requests (cancelDelete (openDeleteDialog i s)) = requests s
   \<and> contents (cancelDelete (openDeleteDialog i s)) = contents s
   \<and> \<not> deleteDialogOpen (cancelDelete (openDeleteDialog i s))
   \<and> (i \<noteq> [] \<longrightarrow>
        requests (handleDelete (openDeleteDialog i s)) = requests s @ [Delete (''/content/'' @ i)]
        \<and> contents (handleDelete (openDeleteDialog i s)) = contents s)
   \<and> requests (delete_resolved s) = requests s @ [Get ''/analytics'', Get ''/content'']
   \<and> contents (delete_resolved s) = contents s
   \<and> loading (delete_resolved s)
   \<and> contents (fetchData_resolved a cs (delete_resolved s)) = cs"
  by (simp add: openDeleteDialog_def cancelDelete_def handleDelete_def delete_resolved_def
        fetchData_def fetchData_resolved_def)

theorem delete_needs_confirmation_witness:
  "requests (handleDelete (openDeleteDialog ''c1''
      (fetchData_resolved (Val (0::nat)) [''c1'', ''c2''] (fetchData Dashboard))))
     = [Get ''/analytics'', Get ''/content'', Delete ''/content/c1'']"
  using delete_needs_confirmation
          [of "''c1''" "fetchData_resolved (Val (0::nat)) [''c1'', ''c2''] (fetchData Dashboard)"]
  by (simp add: fetchData_resolved_def fetchData_def Dashboard_def)

text \<open>
  C8 as stated does not hold: the two acknowledgments share the one state
  \<open>copied\<close>. One second after the share link was copied its check mark is shown;
  copying the sitemap URL then removes it, and one second later the timeout set by the
  first copy removes the sitemap's check mark too, one second after it appeared.
\<close>

theorem acknowledgments_interfere:
  "link_acknowledged (elapse 1000 (copyShareLink ''https://site.test'' ''c1'' ExportModal))
   \<and> \<not> link_acknowledged
        (copySitemapUrl ''https://site.test''
          (elapse 1000 (copyShareLink ''https://site.test'' ''c1'' ExportModal)))
   \<and> sitemap_acknowledged
        (copySitemapUrl ''https://site.test''
          (elapse 1000 (copyShareLink ''https://site.test'' ''c1'' ExportModal)))
   \<and> \<not> sitemap_acknowledged
        (elapse 1000 (copySitemapUrl ''https://site.test''
          (elapse 1000 (copyShareLink ''https://site.test'' ''c1'' ExportModal))))"
  by (simp add: link_acknowledged_def sitemap_acknowledged_def elapse_def copySitemapUrl_def
        copyShareLink_def ExportModal_def Let_def)

lemma filter_later: "filter (\<lambda>due. t + b < due) (filter (\<lambda>due. t < due) xs) = filter (\<lambda>due. t + b < (due::nat)) xs"
  by (induction xs) auto

lemma list_ex_later:
  "list_ex (\<lambda>due. due \<le> t + b) xs =
     (list_ex (\<lambda>due. due \<le> (t::nat)) xs \<or> list_ex (\<lambda>due. due \<le> t + b) (filter (\<lambda>due. t < due) xs))"
  by (induction xs) auto

text \<open>Letting time pass in two steps is letting it pass in one.\<close>

lemma elapse_elapse: "elapse b (elapse a s) = elapse (a + b) s"
proof -
  have "list_ex (\<lambda>due. due \<le> now s + (a + b)) (reverts s) =
     (list_ex (\<lambda>due. due \<le> now s + a) (reverts s)
      \<or> list_ex (\<lambda>due. due \<le> now s + (a + b)) (filter (\<lambda>due. now s + a < due) (reverts s)))"
    using list_ex_later [of "now s + a" b "reverts s"] by (simp only: add.assoc)
  moreover have "filter (\<lambda>due. now s + (a + b) < due) (filter (\<lambda>due. now s + a < due) (reverts s))
      = filter (\<lambda>due. now s + (a + b) < due) (reverts s)"
    using filter_later [of "now s + a" b "reverts s"] by (simp only: add.assoc)
  ultimately show ?thesis
    by (auto simp: elapse_def Let_def add.assoc)
qed

text \<open>
  C8, amended. With no earlier timeout pending, each copy action writes its URL to the
  clipboard and shows its own check mark, which stays for less than 2000 ms and is gone
  from 2000 ms on, when no copy action comes in between. The two acknowledgments are
  not independent: a copy action replaces the other action's check mark with its own.
\<close>

theorem copied_acknowledgment:
  assumes "reverts s = []"
  shows "clipboard (copyShareLink origin contentId s) = clipboard s @ [origin @ ''/share/'' @ contentId]
   \<and> link_acknowledged (copyShareLink origin contentId s)
   \<and> (d < 2000 \<longrightarrow> link_acknowledged (elapse d (copyShareLink origin contentId s)))
   \<and> (2000 \<le> d \<longrightarrow> copied (elapse d (copyShareLink origin contentId s)) = Null)
   \<and> clipboard (copySitemapUrl origin s) = clipboard s @ [origin @ ''/api/sitemap.xml'']
   \<and> sitemap_acknowledged (copySitemapUrl origin s)
   \<and> (d < 2000 \<longrightarrow> sitemap_acknowledged (elapse d (copySitemapUrl origin s)))
   \<and> (2000 \<le> d \<longrightarrow> copied (elapse d (copySitemapUrl origin s)) = Null)
   \<and> \<not> link_acknowledged (copySitemapUrl origin (copyShareLink origin contentId s))
   \<and> \<not> sitemap_acknowledged (copyShareLink origin contentId (copySitemapUrl origin s))"
  using assms
  by (simp add: link_acknowledged_def sitemap_acknowledged_def elapse_def copySitemapUrl_def
        copyShareLink_def Let_def)

theorem copied_acknowledgment_witness:
  "link_acknowledged (elapse 1999 (copyShareLink ''https://site.test'' ''c1'' ExportModal))
   \<and> copied (elapse 2000 (copyShareLink ''https://site.test'' ''c1'' ExportModal)) = Null"
  using copied_acknowledgment [of ExportModal "''https://site.test''" "''c1''" 1999]
        copied_acknowledgment [of ExportModal "''https://site.test''" "''c1''" 2000]
  by (simp add: ExportModal_def)

text \<open>
  C4 as stated does not hold. \<open>Promise.all\<close> rejects at the first failure: when
  the content request fails, the page leaves the spinner and shows \<open>Content not found\<close>
  while the queries request is still pending. And when \<open>fetchContent\<close> runs again on a
  page that has its content (after a refresh, or for another id), a failure leaves the
  content that was there on screen.
\<close>

theorem failure_ends_loading_early:
  "render_details (settle ContentRejected (mounted ''a'') :: (string, string) content_details) = ContentNotFound
   \<and> either_pending (settle ContentRejected (mounted ''a'') :: (string, string) content_details)
   \<and> render_details
        (settle ContentRejected
          (fetchContent ''a''
            (settle_all [ContentResolved (Val ''post''), QueriesResolved [''q1'']] (mounted ''a'')))
         :: (string, string) content_details) = Details ''post'' [''q1'']"
  by (simp add: mounted_def fetchContent_def EnhancedContentDetails_def join_def
        render_details_def either_pending_def)

lemma fetch_inv_start:
  "fetch_inv (toasts s) (requests s @ [Get (''/content/'' @ ident), Get (''/queries/'' @ ident)])
     (content_record s) (queries s) (fetchContent ident s)"
  by (simp add: fetch_inv_def fetchContent_def either_failed_def either_pending_def)

lemma fetch_inv_settle:
  assumes "fetch_inv ts rs c0 q0 s"
  shows "fetch_inv ts rs c0 q0 (settle e s)"
proof (cases e)
  case (ContentResolved c)
  with assms show ?thesis
    by (cases "queries_request s")
       (auto simp: fetch_inv_def join_def either_failed_def either_pending_def)
next
  case ContentRejected
  with assms show ?thesis
    by (cases "queries_request s")
       (auto simp: fetch_inv_def join_def either_failed_def either_pending_def)
next
  case (QueriesResolved qs)
  with assms show ?thesis
    by (cases "content_request s")
       (auto simp: fetch_inv_def join_def either_failed_def either_pending_def)
next
  case QueriesRejected
  with assms show ?thesis
    by (cases "content_request s")
       (auto simp: fetch_inv_def join_def either_failed_def either_pending_def)
qed

lemma fetch_inv_settle_all:
  "fetch_inv ts rs c0 q0 s \<Longrightarrow> fetch_inv ts rs c0 q0 (settle_all es s)"
  by (induction es arbitrary: s) (simp_all add: fetch_inv_settle)

lemma fetch_inv_mounted:
  "fetch_inv [] [Get (''/content/'' @ ident), Get (''/queries/'' @ ident)] Null []
     (settle_all es (mounted ident))"
proof -
  have "fetch_inv [] [Get (''/content/'' @ ident), Get (''/queries/'' @ ident)] Null []
          (mounted ident :: ('c, 'q) content_details)"
    using fetch_inv_start [of "EnhancedContentDetails :: ('c, 'q) content_details" ident]
    by (simp add: mounted_def EnhancedContentDetails_def)
  then show ?thesis by (rule fetch_inv_settle_all)
qed

text \<open>
  C4, amended. On the first load \<open>fetchContent\<close> sends the content and the queries
  request together, before either settles, and sends nothing more. Whatever settles
  afterwards, in any order: the page shows the spinner exactly while no request has
  failed and one is still pending; it shows the details only when both requests have
  resolved, with what they returned; as soon as one request has failed, also while the
  other is pending, it shows \<open>Content not found\<close> and exactly one error notification.
\<close>

theorem fetch_content_outcomes:
  fixes es :: "('c, 'q) settlement list"
  shows
  "requests (mounted ident :: ('c, 'q) content_details)
      = [Get (''/content/'' @ ident), Get (''/queries/'' @ ident)]
   \<and> content_request (mounted ident :: ('c, 'q) content_details) = Pending
   \<and> queries_request (mounted ident :: ('c, 'q) content_details) = Pending
   \<and> render_details (mounted ident :: ('c, 'q) content_details) = Spinner
   \<and> requests (settle_all es (mounted ident))
      = [Get (''/content/'' @ ident), Get (''/queries/'' @ ident)]
   \<and> (render_details (settle_all es (mounted ident)) = Spinner) =
       (either_pending (settle_all es (mounted ident)) \<and> \<not> either_failed (settle_all es (mounted ident)))
   \<and> (\<forall>c qs. render_details (settle_all es (mounted ident)) = Details c qs \<longrightarrow>
         content_request (settle_all es (mounted ident)) = Fulfilled (Val c)
         \<and> queries_request (settle_all es (mounted ident)) = Fulfilled qs)
   \<and> (\<forall>c qs. content_request (settle_all es (mounted ident)) = Fulfilled (Val c)
         \<and> queries_request (settle_all es (mounted ident)) = Fulfilled qs \<longrightarrow>
         render_details (settle_all es (mounted ident)) = Details c qs)
   \<and> (either_failed (settle_all es (mounted ident)) \<longrightarrow>
         render_details (settle_all es (mounted ident)) = ContentNotFound
         \<and> toasts (settle_all es (mounted ident)) = [ToastError ''Failed to load content''])
   \<and> (\<not> either_failed (settle_all es (mounted ident)) \<longrightarrow>
         toasts (settle_all es (mounted ident)) = [])"
proof -
  let ?s = "settle_all es (mounted ident)"
  have inv: "fetch_inv [] [Get (''/content/'' @ ident), Get (''/queries/'' @ ident)] Null [] ?s"
    by (rule fetch_inv_mounted)
  have start: "requests (mounted ident :: ('c, 'q) content_details)
        = [Get (''/content/'' @ ident), Get (''/queries/'' @ ident)]
      \<and> content_request (mounted ident :: ('c, 'q) content_details) = Pending
      \<and> queries_request (mounted ident :: ('c, 'q) content_details) = Pending
      \<and> render_details (mounted ident :: ('c, 'q) content_details) = Spinner"
    by (simp add: mounted_def fetchContent_def EnhancedContentDetails_def render_details_def)
  from inv have a: "requests ?s = [Get (''/content/'' @ ident), Get (''/queries/'' @ ident)]"
    by (simp add: fetch_inv_def)
  from inv have b: "(render_details ?s = Spinner) = (either_pending ?s \<and> \<not> either_failed ?s)"
    by (auto simp: fetch_inv_def render_details_def split: js.splits)
  from inv have c: "\<forall>c qs. render_details ?s = Details c qs \<longrightarrow>
         content_request ?s = Fulfilled (Val c) \<and> queries_request ?s = Fulfilled qs"
    by (auto simp: fetch_inv_def render_details_def split: js.splits if_splits)
  from inv have f: "\<forall>c qs. content_request ?s = Fulfilled (Val c) \<and> queries_request ?s = Fulfilled qs \<longrightarrow>
         render_details ?s = Details c qs"
    by (auto simp: fetch_inv_def render_details_def either_failed_def either_pending_def
          split: js.splits if_splits)
  from inv have d: "either_failed ?s \<longrightarrow>
         render_details ?s = ContentNotFound \<and> toasts ?s = [ToastError ''Failed to load content'']"
    by (auto simp: fetch_inv_def render_details_def split: js.splits if_splits)
  from inv have e: "\<not> either_failed ?s \<longrightarrow> toasts ?s = []"
    by (auto simp: fetch_inv_def)
  from start a b c f d e show ?thesis by blast
qed

theorem fetch_content_outcomes_witness:
  "render_details (settle_all [QueriesResolved [''q1''], ContentRejected] (mounted ''a'')
      :: (string, string) content_details) = ContentNotFound
   \<and> render_details (settle_all [QueriesResolved [''q1'']] (mounted ''a'')
      :: (string, string) content_details) = Spinner"
  using fetch_content_outcomes [of "''a''" "[QueriesResolved [''q1''], ContentRejected] :: (string, string) settlement list"]
        fetch_content_outcomes [of "''a''" "[QueriesResolved [''q1'']] :: (string, string) settlement list"]
  by (simp add: mounted_def fetchContent_def EnhancedContentDetails_def join_def either_failed_def either_pending_def)

end
